theory Spec2Isabelle
  imports Complex_Main
begin

section \<open>Data model\<close>

text \<open>
  Python floats are modelled as exact reals: the theory is about the arithmetic the
  formulas denote, not about binary rounding. A Python dict with string keys that the
  code iterates over (\<open>air.items()\<close>) is an association list in iteration order, its
  keys distinct as the keys of a dict are; \<open>k in d\<close> and \<open>d[k]\<close> are \<open>map_of\<close>, and
  \<open>len(d)\<close> is the length of the list. A dict whose keys are fixed is a record, an
  optional key an \<open>option\<close> field.
\<close>

datatype py_error = TypeError | ValueError

text \<open>
  The \<open>"value"\<close> entry of a per-pollutant dict. The code tells three cases apart:
  the key is missing, the key holds \<open>None\<close>, the key holds a number
  (\<open>.get("value") is not None\<close> in the exposure score, \<open>"value" in data\<close> in the
  duration score).
\<close>

datatype pyval = NoKey | PyNone | Num real

record fused_metric =
  m_value :: pyval
  m_unit :: string
  m_threshold :: "real option"
  m_source :: string

type_synonym air_metrics = "(string \<times> fused_metric) list"

record water_metrics =
  quality_score :: "real option"
  turbidity :: "real option"
  status :: string
  w_source :: string

record land_metrics =
  deforestation_risk :: real
  trend :: string
  l_source :: string

text \<open>The metrics bundle: each domain key may be missing (\<open>metrics.get("air", {})\<close>).\<close>

record metrics_bundle =
  air :: "air_metrics option"
  water :: "water_metrics option"
  land :: "land_metrics option"

record data_quality =
  coverage :: "real option"
  age_hours :: "real option"

datatype verdict_level = SAFE | MODERATE | UNSAFE

record risk_result =
  risk_score :: real
  exposure_score :: real
  duration_score :: real
  uncertainty_penalty :: real
  verdict :: verdict_level
  confidence :: real
  model_version :: string

section \<open>Risk scorer (class RiskScorer)\<close>

definition WHO_THRESHOLDS :: "(string \<times> real) list" where
  "WHO_THRESHOLDS =
     [(''pm25_annual'', 15), (''pm25_24h'', 45), (''pm10_annual'', 45), (''pm10_24h'', 45),
      (''no2_annual'', 25), (''no2_24h'', 200), (''so2_24h'', 40), (''o3_8h'', 100)]"

text \<open>\<open>metrics.get("air", {})\<close> and \<open>metrics.get("water", {})\<close>.\<close>

definition get_air :: "metrics_bundle \<Rightarrow> air_metrics" where
  "get_air metrics = (case air metrics of None \<Rightarrow> [] | Some a \<Rightarrow> a)"

definition get_quality_score :: "metrics_bundle \<Rightarrow> real option" where
  "get_quality_score metrics = (case water metrics of None \<Rightarrow> None | Some w \<Rightarrow> quality_score w)"

text \<open>
  One of the three pollutant blocks of \<open>_calculate_exposure_score\<close>:
  \<open>if p in air and air[p].get("value") is not None: ... max_exceedance = max(max_exceedance, value / threshold if threshold > 0 else 0)\<close>.
  The threshold is read from \<open>WHO_THRESHOLDS\<close> under a key that is always there.
\<close>

definition exceedance_step :: "air_metrics \<Rightarrow> string \<Rightarrow> string \<Rightarrow> real \<Rightarrow> real" where
  "exceedance_step air_d pollutant threshold_key max_exceedance =
     (case map_of air_d pollutant of
        None \<Rightarrow> max_exceedance
      | Some data \<Rightarrow>
          (case m_value data of
             Num v \<Rightarrow>
               (let threshold = the (map_of WHO_THRESHOLDS threshold_key);
                    exceedance = (if threshold > 0 then v / threshold else 0)
                in max max_exceedance exceedance)
           | _ \<Rightarrow> max_exceedance))"

definition calculate_exposure_score :: "metrics_bundle \<Rightarrow> real" where
  "calculate_exposure_score metrics =
     (let max_exceedance = 0;
          air_d = get_air metrics;
          max_exceedance = exceedance_step air_d ''pm25'' ''pm25_24h'' max_exceedance;
          max_exceedance = exceedance_step air_d ''no2'' ''no2_24h'' max_exceedance;
          max_exceedance = exceedance_step air_d ''so2'' ''so2_24h'' max_exceedance;
          max_exceedance =
            (case get_quality_score metrics of
               None \<Rightarrow> max_exceedance
             | Some score \<Rightarrow> max max_exceedance ((100 - score) / 100))
      in min 100 (max_exceedance * 50))"

text \<open>
  The inner loop of \<open>_calculate_duration_score\<close> over \<open>air.items()\<close>: \<open>Inr True\<close> when
  the loop leaves through \<open>break\<close> (the day is counted), \<open>Inr False\<close> when it runs to
  its end, \<open>Inl TypeError\<close> when \<open>value > threshold\<close> compares \<open>None\<close> with a number.
  Every entry of the air domain is a dict, so the \<open>isinstance\<close> test of the loop holds.
\<close>

fun day_high_exposure :: "air_metrics \<Rightarrow> py_error + bool" where
  "day_high_exposure [] = Inr False"
| "day_high_exposure ((pollutant, data) # rest) =
     (case m_value data of
        NoKey \<Rightarrow> day_high_exposure rest
      | v \<Rightarrow>
          (case map_of WHO_THRESHOLDS (pollutant @ ''_24h'') of
             None \<Rightarrow> day_high_exposure rest
           | Some threshold \<Rightarrow>
               (case v of
                  Num x \<Rightarrow> if x > threshold then Inr True else day_high_exposure rest
                | _ \<Rightarrow> Inl TypeError)))"

text \<open>The outer loop: \<open>high_exposure_days\<close> is the accumulator.\<close>

fun count_high_exposure_days :: "metrics_bundle list \<Rightarrow> nat \<Rightarrow> py_error + nat" where
  "count_high_exposure_days [] high_exposure_days = Inr high_exposure_days"
| "count_high_exposure_days (day_data # rest) high_exposure_days =
     (case day_high_exposure (get_air day_data) of
        Inl e \<Rightarrow> Inl e
      | Inr True \<Rightarrow> count_high_exposure_days rest (high_exposure_days + 1)
      | Inr False \<Rightarrow> count_high_exposure_days rest high_exposure_days)"

text \<open>\<open>historical_trend[-total_days:]\<close> for \<open>0 < total_days \<le> len(historical_trend)\<close>.\<close>

definition last_days :: "nat \<Rightarrow> 'a list \<Rightarrow> 'a list" where
  "last_days total_days xs = drop (length xs - total_days) xs"

definition calculate_duration_score :: "metrics_bundle list option \<Rightarrow> py_error + real" where
  "calculate_duration_score historical_trend =
     (case historical_trend of
        None \<Rightarrow> Inr 50
      | Some h \<Rightarrow>
          if h = [] \<or> length h < 7 then Inr 50
          else
            (let total_days = min 30 (length h)
             in case count_high_exposure_days (last_days total_days h) 0 of
                  Inl e \<Rightarrow> Inl e
                | Inr high_exposure_days \<Rightarrow>
                    Inr ((real high_exposure_days / real total_days) * 100)))"

text \<open>\<open>data_quality.get("age_hours", 0)\<close> and \<open>data_quality.get("coverage", 1.0)\<close>.\<close>

definition get_age_hours :: "data_quality \<Rightarrow> real" where
  "get_age_hours dq = (case age_hours dq of None \<Rightarrow> 0 | Some a \<Rightarrow> a)"

definition get_coverage :: "data_quality \<Rightarrow> real" where
  "get_coverage dq = (case coverage dq of None \<Rightarrow> 1 | Some c \<Rightarrow> c)"

definition calculate_uncertainty_penalty :: "data_quality \<Rightarrow> real" where
  "calculate_uncertainty_penalty dq =
     (let penalty = 0;
          age = get_age_hours dq;
          penalty = (if age > 24 then penalty + min 20 ((age - 24) / 24 * 20) else penalty);
          cov = get_coverage dq;
          penalty = (if cov < 1 / 2 then penalty + (1 - cov) * 30 else penalty)
      in min 100 penalty)"

definition calculate_confidence :: "data_quality \<Rightarrow> metrics_bundle \<Rightarrow> real" where
  "calculate_confidence dq metrics =
     (let conf = 100;
          age = get_age_hours dq;
          conf = (if age > 24 then conf - min 30 ((age - 24) / 24 * 30) else conf);
          cov = get_coverage dq;
          conf = conf * cov;
          air_d = get_air metrics;
          conf = (if air_d = [] \<or> length air_d < 2 then conf * (7 / 10) else conf)
      in max 0 (min 100 conf))"

text \<open>
  Python's \<open>round(x, 1)\<close>: to the nearest multiple of one tenth, a tie to the even one.
\<close>

definition py_round1 :: "real \<Rightarrow> real" where
  "py_round1 x =
     (let y = x * 10; f = \<lfloor>y\<rfloor>; d = y - of_int f
      in (if d < 1 / 2 then of_int f
          else if d > 1 / 2 then of_int (f + 1)
          else if even f then of_int f else of_int (f + 1)) / 10)"

definition default_data_quality :: data_quality where
  "default_data_quality = \<lparr>coverage = Some 1, age_hours = Some 0\<rparr>"

text \<open>
  The composite score of \<open>calculate_risk_score\<close> after the clamp and before the
  rounding of the return statement (the local \<open>risk_score\<close> of lines 156 to 163).
\<close>

definition combined_risk_score :: "real \<Rightarrow> real \<Rightarrow> real \<Rightarrow> real" where
  "combined_risk_score exposure duration penalty =
     max 0 (min 100 (6 / 10 * exposure + 3 / 10 * duration + 1 / 10 * penalty))"

definition calculate_risk_score ::
  "metrics_bundle \<Rightarrow> metrics_bundle list option \<Rightarrow> data_quality option \<Rightarrow> py_error + risk_result" where
  "calculate_risk_score metrics historical_trend data_quality_arg =
     (let dq = (case data_quality_arg of None \<Rightarrow> default_data_quality | Some q \<Rightarrow> q);
          exposure = calculate_exposure_score metrics
      in case calculate_duration_score historical_trend of
           Inl e \<Rightarrow> Inl e
         | Inr duration \<Rightarrow>
             (let penalty = calculate_uncertainty_penalty dq;
                  score = combined_risk_score exposure duration penalty;
                  v = (if score \<ge> 67 then UNSAFE else if score \<ge> 34 then MODERATE else SAFE);
                  conf = calculate_confidence dq metrics
              in Inr \<lparr>risk_score = py_round1 score,
                      exposure_score = py_round1 exposure,
                      duration_score = py_round1 duration,
                      uncertainty_penalty = py_round1 penalty,
                      verdict = v,
                      confidence = py_round1 conf,
                      model_version = ''1.0.0''\<rparr>))"

section \<open>Data fusion service (class DataFusionService)\<close>

text \<open>
  The raw data of the ingestion layer, as far as the fusion reads it. A measurement of
  the ground-sensor network has an optional \<open>parameter\<close> and an optional \<open>value\<close>
  (\<open>None\<close> for a missing key and for the value \<open>None\<close>: the code reads both through
  \<open>.get\<close>). The satellite record has an optional entry per gas, whose \<open>value\<close> is
  optional in the same way.
\<close>

record measurement =
  parameter :: "string option"
  meas_value :: "real option"

record openaq_data =
  measurements :: "measurement list option"

record column_density =
  cd_value :: "real option"

record sentinel_data =
  no2 :: "column_density option"
  so2 :: "column_density option"

record source_data =
  openaq :: "openaq_data option"
  sentinel5p :: "sentinel_data option"

record raw_data =
  sources :: "source_data option"

definition weights :: "(string \<times> real) list" where
  "weights = [(''satellite'', 4 / 10), (''ground_sensor'', 5 / 10), (''weather'', 1 / 10)]"

text \<open>
  \<open>np.average(values, weights=weights)\<close>: the sum of the products over the sum of the
  weights. NumPy raises when the weights sum to zero; the fusion calls it on non-empty
  lists of the positive weights above only.
\<close>

definition np_average :: "real list \<Rightarrow> real list \<Rightarrow> real" where
  "np_average vals wts = sum_list (map2 (*) vals wts) / sum_list wts"

text \<open>
  The loop \<open>for meas in measurements\<close> for one pollutant: a measurement of that
  parameter whose value is not \<open>None\<close> appends its value and the ground-sensor weight.
\<close>

fun openaq_readings ::
  "string \<Rightarrow> measurement list \<Rightarrow> real list \<times> real list \<Rightarrow> real list \<times> real list" where
  "openaq_readings p [] acc = acc"
| "openaq_readings p (meas # rest) (vals, wts) =
     (if parameter meas = Some p \<and> meas_value meas \<noteq> None
      then openaq_readings p rest
             (vals @ [the (meas_value meas)], wts @ [the (map_of weights ''ground_sensor'')])
      else openaq_readings p rest (vals, wts))"

text \<open>
  The satellite block: \<open>if gas in sentinel_data and sentinel_data[gas].get("value")\<close>
  is a truth test, so a value of \<open>None\<close> and a value of zero are both skipped. The
  column density in \<open>mol/m\<^sup>2\<close> is converted by
  \<open>mol * 1e6 * molar_mass / 6.022e23 * 1e12\<close>.
\<close>

definition sentinel_reading ::
  "column_density option \<Rightarrow> real \<Rightarrow> real list \<times> real list \<Rightarrow> real list \<times> real list" where
  "sentinel_reading entry molar_mass acc =
     (case acc of (vals, wts) \<Rightarrow>
        (case entry of
           None \<Rightarrow> (vals, wts)
         | Some cd \<Rightarrow>
             (case cd_value cd of
                None \<Rightarrow> (vals, wts)
              | Some mol \<Rightarrow>
                  if mol = 0 then (vals, wts)
                  else (vals @ [mol * 10 ^ 6 * molar_mass / (6022 / 1000 * 10 ^ 23) * 10 ^ 12],
                        wts @ [the (map_of weights ''satellite'')]))))"

text \<open>The unit string, the UTF-8 bytes of the microgram-per-cubic-metre sign.\<close>

definition ug_m3 :: string where
  "ug_m3 = [CHR 0xCE, CHR 0xBC] @ ''g/m'' @ [CHR 0xC2, CHR 0xB3]"

text \<open>
  The provenance label of the NO2 and SO2 blocks:
  \<open>"Fused (OpenAQ + Sentinel-5P)" if len(values) > 1 else "OpenAQ" if measurements else "Sentinel-5P"\<close>.
\<close>

definition source_label :: "real list \<Rightarrow> measurement list \<Rightarrow> string" where
  "source_label vals ms =
     (if length vals > 1 then ''Fused (OpenAQ + Sentinel-5P)''
      else if ms \<noteq> [] then ''OpenAQ'' else ''Sentinel-5P'')"

definition get_measurements :: "source_data \<Rightarrow> measurement list" where
  "get_measurements srcs =
     (case openaq srcs of
        None \<Rightarrow> []
      | Some d \<Rightarrow> (case measurements d of None \<Rightarrow> [] | Some ms \<Rightarrow> ms))"

definition get_sentinel :: "source_data \<Rightarrow> sentinel_data" where
  "get_sentinel srcs =
     (case sentinel5p srcs of None \<Rightarrow> \<lparr>no2 = None, so2 = None\<rparr> | Some d \<Rightarrow> d)"

definition fuse_air_quality :: "source_data \<Rightarrow> air_metrics" where
  "fuse_air_quality srcs =
     (let metrics = [];
          ms = get_measurements srcs;
          sentinel = get_sentinel srcs;
          pm25 = openaq_readings ''pm25'' ms ([], []);
          metrics =
            (if fst pm25 \<noteq> []
             then metrics @
                    [(''pm25'', \<lparr>m_value = Num (np_average (fst pm25) (snd pm25)), m_unit = ug_m3,
                                m_threshold = Some 45, m_source = ''OpenAQ''\<rparr>)]
             else metrics);
          no2r = sentinel_reading (no2 sentinel) (4601 / 100) (openaq_readings ''no2'' ms ([], []));
          metrics =
            (if fst no2r \<noteq> []
             then metrics @
                    [(''no2'', \<lparr>m_value = Num (np_average (fst no2r) (snd no2r)), m_unit = ug_m3,
                               m_threshold = Some 200, m_source = source_label (fst no2r) ms\<rparr>)]
             else metrics);
          so2r = sentinel_reading (so2 sentinel) (6407 / 100) (openaq_readings ''so2'' ms ([], []));
          metrics =
            (if fst so2r \<noteq> []
             then metrics @
                    [(''so2'', \<lparr>m_value = Num (np_average (fst so2r) (snd so2r)), m_unit = ug_m3,
                               m_threshold = Some 40, m_source = source_label (fst so2r) ms\<rparr>)]
             else metrics)
      in metrics)"

definition fuse_water_quality :: "source_data \<Rightarrow> water_metrics" where
  "fuse_water_quality srcs =
     \<lparr>quality_score = Some 75, turbidity = None, status = ''Data not available'',
      w_source = ''Placeholder''\<rparr>"

definition fuse_land_metrics :: "source_data \<Rightarrow> land_metrics" where
  "fuse_land_metrics srcs =
     \<lparr>deforestation_risk = 25, trend = ''stable'', l_source = ''Placeholder''\<rparr>"

definition get_sources :: "raw_data \<Rightarrow> source_data" where
  "get_sources raw = (case sources raw of None \<Rightarrow> \<lparr>openaq = None, sentinel5p = None\<rparr> | Some s \<Rightarrow> s)"

definition fuse_data :: "raw_data \<Rightarrow> real \<Rightarrow> real \<Rightarrow> metrics_bundle" where
  "fuse_data raw lat lng =
     (let srcs = get_sources raw
      in \<lparr>air = Some (fuse_air_quality srcs),
          water = Some (fuse_water_quality srcs),
          land = Some (fuse_land_metrics srcs)\<rparr>)"

section \<open>Anomaly detector (class AnomalyDetector)\<close>

text \<open>
  The isolation forest and the scaler belong to scikit-learn, not to this program: the
  trained state is a value of a type \<open>'m\<close>, and the library calls are parameters of the
  model (\<open>None\<close> when the library raises). What the detector itself adds is the
  \<open>fitted\<close> flag and the guards around the calls.
\<close>

record 'm anomaly_detector =
  model :: 'm
  fitted :: bool

record anomaly_result =
  anomaly_score :: real
  is_anomaly :: bool
  anomaly_confidence :: real
  result_note :: "string option"
  score_threshold :: "real option"

definition init_detector :: "'m \<Rightarrow> 'm anomaly_detector" where
  "init_detector untrained = \<lparr>model = untrained, fitted = False\<rparr>"

text \<open>
  \<open>fit\<close>: \<open>train\<close> stands for \<open>scaler.fit_transform\<close> followed by \<open>model.fit\<close> on
  the extracted features; \<open>len(historical_data)\<close> is the number of rows.
\<close>

definition fit ::
  "('s list \<Rightarrow> 'm option) \<Rightarrow> 'm anomaly_detector \<Rightarrow> 's list \<Rightarrow> py_error + 'm anomaly_detector" where
  "fit train self historical_data =
     (if length historical_data < 10 then Inr (self\<lparr>fitted := False\<rparr>)
      else (case train historical_data of
              None \<Rightarrow> Inl ValueError
            | Some m \<Rightarrow> Inr (self\<lparr>model := m, fitted := True\<rparr>)))"

text \<open>
  The names of the feature columns \<open>_extract_features\<close> builds from the columns of a
  frame: the pollutant columns that are there, and two temporal ones when there is a
  timestamp.
\<close>

definition extract_feature_names :: "string list \<Rightarrow> string list" where
  "extract_feature_names columns =
     filter (\<lambda>col. col \<in> set columns) [''pm25'', ''pm10'', ''no2'', ''so2'', ''o3''] @
     (if ''timestamp'' \<in> set columns then [''hour'', ''day_of_week''] else [])"

text \<open>
  \<open>predict\<close> reads the detector and does not change it. \<open>columns\<close> gives the keys of
  the sample, \<open>score_samples\<close> and \<open>model_predict\<close> are the library's calls on the
  scaled features of the sample.
\<close>

definition predict ::
  "('s \<Rightarrow> string list) \<Rightarrow> ('m \<Rightarrow> 's \<Rightarrow> real option) \<Rightarrow> ('m \<Rightarrow> 's \<Rightarrow> int option) \<Rightarrow>
   'm anomaly_detector \<Rightarrow> 's \<Rightarrow> py_error + anomaly_result" where
  "predict columns score_samples model_predict self current_data =
     (if \<not> fitted self
      then Inr \<lparr>anomaly_score = 0, is_anomaly = False, anomaly_confidence = 0,
                result_note = Some ''Model not fitted - insufficient historical data'',
                score_threshold = None\<rparr>
      else if extract_feature_names (columns current_data) = []
      then Inr \<lparr>anomaly_score = 0, is_anomaly = False, anomaly_confidence = 0,
                result_note = Some ''No features available'', score_threshold = None\<rparr>
      else (case (score_samples (model self) current_data, model_predict (model self) current_data) of
              (Some s, Some label) \<Rightarrow>
                Inr \<lparr>anomaly_score = s, is_anomaly = (label = - 1), anomaly_confidence = \<bar>s\<bar>,
                     result_note = None, score_threshold = Some (- (1 / 2))\<rparr>
            | _ \<Rightarrow> Inl ValueError))"

section \<open>Notions of the specification and sample inputs\<close>

text \<open>
  A day of the historical trend counts as high exposure when some air pollutant value
  strictly exceeds its WHO 24h threshold (the threshold under the key
  \<open>pollutant_24h\<close> of the table).
\<close>

definition exceeds_who_24h :: "metrics_bundle \<Rightarrow> bool" where
  "exceeds_who_24h day =
     list_ex (\<lambda>(pollutant, data).
        case m_value data of
          Num x \<Rightarrow> (case map_of WHO_THRESHOLDS (pollutant @ ''_24h'') of
                      Some threshold \<Rightarrow> x > threshold
                    | None \<Rightarrow> False)
        | _ \<Rightarrow> False) (get_air day)"

text \<open>
  A bundle is numeric when no air entry carries the value \<open>None\<close>: the values of a
  FusedMetric are numbers (\<open>MetricValue.value: float\<close> in the API schemas).
\<close>

definition numeric_values :: "metrics_bundle \<Rightarrow> bool" where
  "numeric_values day = list_all (\<lambda>(pollutant, data). m_value data \<noteq> PyNone) (get_air day)"

definition metric_of :: "real \<Rightarrow> real \<Rightarrow> string \<Rightarrow> fused_metric" where
  "metric_of v t s = \<lparr>m_value = Num v, m_unit = ug_m3, m_threshold = Some t, m_source = s\<rparr>"

text \<open>A bundle whose only metric is PM2.5, with the WHO threshold attached.\<close>

definition pm25_only :: "real \<Rightarrow> metrics_bundle" where
  "pm25_only v = \<lparr>air = Some [(''pm25'', metric_of v 45 ''OpenAQ'')], water = None, land = None\<rparr>"

text \<open>
  The verdict thresholds in the words of the specification: a step function of a score.
\<close>

definition spec_verdict :: "real \<Rightarrow> verdict_level" where
  "spec_verdict s = (if s \<ge> 67 then UNSAFE else if 34 \<le> s \<and> s < 67 then MODERATE else SAFE)"

text \<open>
  The exposure score in the words of the specification: every pollutant of the air
  domain contributes its value over its attached threshold (a zero or missing threshold
  is left out), the water quality score contributes \<open>(100 - score) / 100\<close>, and the
  score is \<open>min(100, max ratio * 50)\<close>.
\<close>

definition spec_ratios :: "metrics_bundle \<Rightarrow> real list" where
  "spec_ratios m =
     List.map_filter (\<lambda>(pollutant, data).
        case (m_value data, m_threshold data) of
          (Num v, Some t) \<Rightarrow> if t > 0 then Some (v / t) else None
        | _ \<Rightarrow> None) (get_air m) @
     (case get_quality_score m of None \<Rightarrow> [] | Some score \<Rightarrow> [(100 - score) / 100])"

definition spec_exposure_score :: "metrics_bundle \<Rightarrow> real" where
  "spec_exposure_score m = min 100 (Max (set (spec_ratios m)) * 50)"

text \<open>
  The ratios the code takes the maximum of: PM2.5, NO2 and SO2 over their WHO 24h
  thresholds when the entry is there with a value that is not \<open>None\<close>, and the water
  ratio when there is a quality score.
\<close>

definition who_ratio :: "air_metrics \<Rightarrow> string \<Rightarrow> real \<Rightarrow> real list" where
  "who_ratio air_d pollutant threshold =
     (case map_of air_d pollutant of
        None \<Rightarrow> []
      | Some data \<Rightarrow> (case m_value data of Num v \<Rightarrow> [v / threshold] | _ \<Rightarrow> []))"

definition present_ratios :: "metrics_bundle \<Rightarrow> real list" where
  "present_ratios m =
     who_ratio (get_air m) ''pm25'' 45 @ who_ratio (get_air m) ''no2'' 200 @
     who_ratio (get_air m) ''so2'' 40 @
     (case get_quality_score m of None \<Rightarrow> [] | Some score \<Rightarrow> [(100 - score) / 100])"

text \<open>Sample bundles.\<close>

definition pm10_only :: "real \<Rightarrow> metrics_bundle" where
  "pm10_only v = \<lparr>air = Some [(''pm10'', metric_of v 45 ''OpenAQ'')], water = None, land = None\<rparr>"

definition two_metrics :: metrics_bundle where
  "two_metrics =
     \<lparr>air = Some [(''pm25'', metric_of 10 45 ''OpenAQ''), (''no2'', metric_of 20 200 ''OpenAQ'')],
      water = None, land = None\<rparr>"

definition three_metrics :: metrics_bundle where
  "three_metrics =
     \<lparr>air = Some [(''pm25'', metric_of 10 45 ''OpenAQ''), (''no2'', metric_of 20 200 ''OpenAQ''),
                  (''so2'', metric_of 5 40 ''OpenAQ'')],
      water = None, land = None\<rparr>"

definition clean_other_pollutants :: metrics_bundle where
  "clean_other_pollutants =
     \<lparr>air = Some [(''pm25'', metric_of 50 45 ''OpenAQ''), (''pm10'', metric_of 10 45 ''OpenAQ'')],
      water = None, land = None\<rparr>"

definition dirty_other_pollutants :: metrics_bundle where
  "dirty_other_pollutants =
     \<lparr>air = Some [(''pm25'', metric_of 50 45 ''OpenAQ''), (''pm10'', metric_of 500 45 ''OpenAQ''),
                  (''o3'', metric_of 300 100 ''OpenAQ''), (''co'', metric_of 9 4 ''OpenAQ'')],
      water = None, land = None\<rparr>"

text \<open>
  Readings and fused values are non-negative. A missing value says nothing about its
  sign.
\<close>

definition nonneg_cd :: "column_density option \<Rightarrow> bool" where
  "nonneg_cd entry =
     (case entry of
        None \<Rightarrow> True
      | Some cd \<Rightarrow> (case cd_value cd of None \<Rightarrow> True | Some v \<Rightarrow> 0 \<le> v))"

definition nonneg_readings :: "raw_data \<Rightarrow> bool" where
  "nonneg_readings raw =
     (list_all (\<lambda>meas. case meas_value meas of None \<Rightarrow> True | Some v \<Rightarrow> 0 \<le> v)
        (get_measurements (get_sources raw)) \<and>
      nonneg_cd (no2 (get_sentinel (get_sources raw))) \<and>
      nonneg_cd (so2 (get_sentinel (get_sources raw))))"

definition nonneg_values :: "metrics_bundle \<Rightarrow> bool" where
  "nonneg_values m =
     (list_all (\<lambda>(pollutant, data). case m_value data of Num x \<Rightarrow> 0 \<le> x | _ \<Rightarrow> True)
        (get_air m) \<and>
      (case get_quality_score m of None \<Rightarrow> True | Some score \<Rightarrow> 0 \<le> score) \<and>
      (case land m of None \<Rightarrow> True | Some l \<Rightarrow> 0 \<le> deforestation_risk l))"

text \<open>
  The raw data without its missing readings: the ground measurements whose value is
  \<open>None\<close> and the satellite entries whose value is \<open>None\<close> are removed.
\<close>

definition drop_cd :: "column_density option \<Rightarrow> column_density option" where
  "drop_cd entry =
     (case entry of
        None \<Rightarrow> None
      | Some cd \<Rightarrow> (case cd_value cd of None \<Rightarrow> None | Some v \<Rightarrow> Some cd))"

definition drop_missing :: "raw_data \<Rightarrow> raw_data" where
  "drop_missing raw =
     \<lparr>sources = Some
        \<lparr>openaq = Some \<lparr>measurements =
            Some (filter (\<lambda>meas. meas_value meas \<noteq> None) (get_measurements (get_sources raw)))\<rparr>,
         sentinel5p = Some \<lparr>no2 = drop_cd (no2 (get_sentinel (get_sources raw))),
                            so2 = drop_cd (so2 (get_sentinel (get_sources raw)))\<rparr>\<rparr>\<rparr>"

definition fused_values :: "metrics_bundle \<Rightarrow> (string \<times> pyval) list" where
  "fused_values m = map (\<lambda>(pollutant, data). (pollutant, m_value data)) (get_air m)"

text \<open>Raw data with ground-sensor measurements only, and one such measurement.\<close>

definition openaq_only :: "measurement list \<Rightarrow> raw_data" where
  "openaq_only ms =
     \<lparr>sources = Some \<lparr>openaq = Some \<lparr>measurements = Some ms\<rparr>, sentinel5p = None\<rparr>\<rparr>"

definition reading :: "string \<Rightarrow> real \<Rightarrow> measurement" where
  "reading p v = \<lparr>parameter = Some p, meas_value = Some v\<rparr>"

text \<open>
  Raw data with one ground-sensor measurement and a satellite NO2 column density.
\<close>

definition openaq_and_no2_column :: "measurement \<Rightarrow> real \<Rightarrow> raw_data" where
  "openaq_and_no2_column meas mol =
     \<lparr>sources = Some
        \<lparr>openaq = Some \<lparr>measurements = Some [meas]\<rparr>,
         sentinel5p = Some \<lparr>no2 = Some \<lparr>cd_value = Some mol\<rparr>, so2 = None\<rparr>\<rparr>\<rparr>"

text \<open>The source classes that contributed a reading to the fused NO2 value.\<close>

definition no2_source_classes :: "source_data \<Rightarrow> string list" where
  "no2_source_classes srcs =
     (if fst (openaq_readings ''no2'' (get_measurements srcs) ([], [])) \<noteq> []
      then [''OpenAQ''] else []) @
     (if fst (sentinel_reading (no2 (get_sentinel srcs)) (4601 / 100) ([], [])) \<noteq> []
      then [''Sentinel-5P''] else [])"

text \<open>
  The result of \<open>predict\<close> on a detector that is not fitted, and a sample setting for
  the detector: rows are dicts of numbers, the stand-in library remembers the number of
  training rows and gives every sample the score \<open>-0.6\<close> and the label \<open>-1\<close>.
\<close>

definition not_fitted_result :: anomaly_result where
  "not_fitted_result =
     \<lparr>anomaly_score = 0, is_anomaly = False, anomaly_confidence = 0,
      result_note = Some ''Model not fitted - insufficient historical data'',
      score_threshold = None\<rparr>"

type_synonym sample = "(string \<times> real) list"

definition sample_columns :: "sample \<Rightarrow> string list" where
  "sample_columns row = map fst row"

definition sample_train :: "sample list \<Rightarrow> nat option" where
  "sample_train rows = Some (length rows)"

definition sample_score :: "nat \<Rightarrow> sample \<Rightarrow> real option" where
  "sample_score m row = Some (- (3 / 5))"

definition sample_label :: "nat \<Rightarrow> sample \<Rightarrow> int option" where
  "sample_label m row = Some (- 1)"

section \<open>Auxiliary lemmas\<close>

lemma WHO_lookup:
  "map_of WHO_THRESHOLDS ''pm25_24h'' = Some 45"
  "map_of WHO_THRESHOLDS ''no2_24h'' = Some 200"
  "map_of WHO_THRESHOLDS ''so2_24h'' = Some 40"
  by (simp_all add: WHO_THRESHOLDS_def)

lemma weights_lookup:
  "map_of weights ''ground_sensor'' = Some (1 / 2)"
  "map_of weights ''satellite'' = Some (2 / 5)"
  by (simp_all add: weights_def)

lemma py_round1_range:
  assumes "0 \<le> x" "x \<le> 100"
  shows "0 \<le> py_round1 x \<and> py_round1 x \<le> 100"
proof -
  define f where "f = \<lfloor>x * 10\<rfloor>"
  have f0: "0 \<le> f" using assms unfolding f_def by simp
  have f1: "f \<le> 1000" using assms unfolding f_def by (simp add: floor_le_iff)
  have up: "f + 1 \<le> 1000" if "x * 10 - of_int f \<ge> 1 / 2"
  proof -
    from that have "of_int f < x * 10" by simp
    then have "real_of_int f < 1000" using assms by linarith
    then show ?thesis by linarith
  qed
  have r0: "0 \<le> real_of_int f" using f0 by simp
  have r1: "real_of_int f \<le> 1000" using f1 by linarith
  have r2: "x * 10 - of_int f \<ge> 1 / 2 \<Longrightarrow> real_of_int (f + 1) \<le> 1000"
    using up by (metis of_int_le_iff of_int_numeral)
  show ?thesis
    using r0 r1 r2 unfolding py_round1_def Let_def f_def[symmetric]
    by (auto simp: field_simps)
qed

lemma combined_risk_score_range:
  "0 \<le> combined_risk_score e d p \<and> combined_risk_score e d p \<le> 100"
  by (simp add: combined_risk_score_def)

lemma calculate_confidence_range:
  "0 \<le> calculate_confidence dq m \<and> calculate_confidence dq m \<le> 100"
  by (simp add: calculate_confidence_def Let_def)

lemma pm25_only_exposure:
  "calculate_exposure_score (pm25_only v) = min 100 (max 0 (v / 45) * 50)"
  by (simp add: calculate_exposure_score_def pm25_only_def metric_of_def get_air_def
      get_quality_score_def exceedance_step_def WHO_lookup Let_def)

lemma pm25_only_confidence:
  "calculate_confidence default_data_quality (pm25_only v) = 70"
  by (simp add: calculate_confidence_def default_data_quality_def get_age_hours_def
      get_coverage_def pm25_only_def get_air_def Let_def)

lemma default_penalty: "calculate_uncertainty_penalty default_data_quality = 0"
  by (simp add: calculate_uncertainty_penalty_def default_data_quality_def get_age_hours_def
      get_coverage_def)

lemma pm25_only_numeric: "numeric_values (pm25_only v)"
  by (simp add: numeric_values_def pm25_only_def metric_of_def get_air_def)

lemma pm25_only_exceeds: "exceeds_who_24h (pm25_only v) = (v > 45)"
  by (simp add: exceeds_who_24h_def pm25_only_def metric_of_def get_air_def WHO_THRESHOLDS_def)

text \<open>The inner loop on numeric entries: it never raises, and it breaks exactly on a high day.\<close>

lemma day_high_exposure_numeric:
  "list_all (\<lambda>(pollutant, data). m_value data \<noteq> PyNone) air_d \<Longrightarrow>
   day_high_exposure air_d =
     Inr (list_ex (\<lambda>(pollutant, data).
        case m_value data of
          Num x \<Rightarrow> (case map_of WHO_THRESHOLDS (pollutant @ ''_24h'') of
                      Some threshold \<Rightarrow> x > threshold
                    | None \<Rightarrow> False)
        | _ \<Rightarrow> False) air_d)"
proof (induction air_d)
  case Nil
  then show ?case by simp
next
  case (Cons a air_d)
  obtain p d where a: "a = (p, d)" by (cases a)
  from Cons show ?case
    unfolding a by (cases "m_value d") (auto split: option.splits)
qed

lemma count_high_exposure_days_numeric:
  "list_all numeric_values days \<Longrightarrow>
   count_high_exposure_days days n = Inr (n + length (filter exceeds_who_24h days))"
proof (induction days arbitrary: n)
  case Nil
  then show ?case by simp
next
  case (Cons day days)
  then have num: "numeric_values day" and rest: "list_all numeric_values days" by simp_all
  have "day_high_exposure (get_air day) = Inr (exceeds_who_24h day)"
    using day_high_exposure_numeric[of "get_air day"] num
    by (simp add: numeric_values_def exceeds_who_24h_def)
  then show ?case using Cons.IH[OF rest] by simp
qed

text \<open>
  The slice the code examines is the list without all but its last 30 entries (the whole
  list when it has at most 30).
\<close>

lemma last_days_window: "last_days (min 30 (length h)) h = drop (length h - 30) h"
proof -
  have "length h - min 30 (length h) = length h - 30" by (simp add: min_def)
  then show ?thesis by (simp add: last_days_def)
qed

text \<open>
  The scorer returns a result whenever the examined history is numeric; with no history
  it always does.
\<close>

lemma calculate_duration_score_returns:
  "list_all numeric_values h \<Longrightarrow> \<exists>d. calculate_duration_score (Some h) = Inr d"
proof -
  assume num: "list_all numeric_values h"
  have "list_all numeric_values (last_days n h)" for n
    using num by (auto simp: last_days_def list_all_iff dest: in_set_dropD)
  then show ?thesis
    unfolding calculate_duration_score_def Let_def
    by (simp add: count_high_exposure_days_numeric)
qed

lemma calculate_risk_score_returns:
  "h = None \<or> (\<exists>hs. h = Some hs \<and> list_all numeric_values hs) \<Longrightarrow>
   \<exists>r. calculate_risk_score m h dq = Inr r"
proof -
  assume "h = None \<or> (\<exists>hs. h = Some hs \<and> list_all numeric_values hs)"
  then have "\<exists>d. calculate_duration_score h = Inr d"
    using calculate_duration_score_returns by (auto simp: calculate_duration_score_def)
  then show ?thesis
    unfolding calculate_risk_score_def Let_def by auto
qed

text \<open>Whenever the loops return, they have counted exactly the high-exposure days.\<close>

lemma day_high_exposure_result:
  "day_high_exposure air_d = Inr b \<Longrightarrow>
   b = list_ex (\<lambda>(pollutant, data).
        case m_value data of
          Num x \<Rightarrow> (case map_of WHO_THRESHOLDS (pollutant @ ''_24h'') of
                      Some threshold \<Rightarrow> x > threshold
                    | None \<Rightarrow> False)
        | _ \<Rightarrow> False) air_d"
proof (induction air_d)
  case Nil
  then show ?case by simp
next
  case (Cons a air_d)
  obtain p d where a: "a = (p, d)" by (cases a)
  from Cons show ?case
    unfolding a by (cases "m_value d") (auto split: option.splits if_splits)
qed

lemma count_high_exposure_days_result:
  "count_high_exposure_days days n = Inr k \<Longrightarrow>
   k = n + length (filter exceeds_who_24h days)"
proof (induction days arbitrary: n)
  case Nil
  then show ?case by simp
next
  case (Cons day days)
  from Cons.prems obtain b where b: "day_high_exposure (get_air day) = Inr b"
    by (auto split: sum.splits)
  have e: "b = exceeds_who_24h day"
    using day_high_exposure_result[OF b] by (simp add: exceeds_who_24h_def)
  show ?case
  proof (cases b)
    case True
    with Cons.prems b have "count_high_exposure_days days (n + 1) = Inr k" by simp
    from Cons.IH[OF this] e True show ?thesis by simp
  next
    case False
    with Cons.prems b have "count_high_exposure_days days n = Inr k" by simp
    from Cons.IH[OF this] e False show ?thesis by simp
  qed
qed

text \<open>The exposure score as one expression, and what each pollutant block computes.\<close>

lemma calculate_exposure_score_unfold:
  "calculate_exposure_score m =
     min 100
       ((case get_quality_score m of
           None \<Rightarrow> (\<lambda>x. x)
         | Some score \<Rightarrow> (\<lambda>x. max x ((100 - score) / 100)))
          (exceedance_step (get_air m) ''so2'' ''so2_24h''
             (exceedance_step (get_air m) ''no2'' ''no2_24h''
                (exceedance_step (get_air m) ''pm25'' ''pm25_24h'' 0))) * 50)"
  unfolding calculate_exposure_score_def Let_def by (simp split: option.splits)

lemma exceedance_step_cong:
  "map_of a p = map_of b p \<Longrightarrow> exceedance_step a p key acc = exceedance_step b p key acc"
  by (simp add: exceedance_step_def)

lemma exceedance_step_who:
  "map_of WHO_THRESHOLDS key = Some t \<Longrightarrow> t > 0 \<Longrightarrow>
   exceedance_step air_d p key acc = fold max (who_ratio air_d p t) acc"
  by (simp add: exceedance_step_def who_ratio_def Let_def max.commute
      split: option.splits pyval.splits)

text \<open>The reading loops without their accumulators.\<close>

lemma openaq_readings_acc:
  "openaq_readings p ms (vs, ws) =
     (vs @ map (the \<circ> meas_value)
             (filter (\<lambda>meas. parameter meas = Some p \<and> meas_value meas \<noteq> None) ms),
      ws @ replicate
             (length (filter (\<lambda>meas. parameter meas = Some p \<and> meas_value meas \<noteq> None) ms))
             (1 / 2))"
proof (induction ms arbitrary: vs ws)
  case Nil
  then show ?case by simp
next
  case (Cons meas ms)
  show ?case
    by (simp add: Cons.IH weights_lookup replicate_app_Cons_same)
qed

lemma sentinel_reading_acc:
  "sentinel_reading entry mm (vs, ws) =
     (vs @ fst (sentinel_reading entry mm ([], [])), ws @ snd (sentinel_reading entry mm ([], [])))"
  by (simp add: sentinel_reading_def split: option.splits)

lemma sentinel_reading_drop_cd:
  "sentinel_reading (drop_cd entry) mm acc = sentinel_reading entry mm acc"
  by (simp add: sentinel_reading_def drop_cd_def split: option.splits prod.splits)

lemma openaq_readings_drop_missing:
  "openaq_readings p (filter (\<lambda>meas. meas_value meas \<noteq> None) ms) ([], []) =
   openaq_readings p ms ([], [])"
  by (simp add: openaq_readings_acc conj_commute cong: conj_cong)

lemma weighted_sum_nonneg:
  "length vs = length ws \<Longrightarrow> \<forall>v\<in>set vs. 0 \<le> v \<Longrightarrow> \<forall>w\<in>set ws. 0 < w \<Longrightarrow>
   (0::real) \<le> sum_list (map2 (*) vs ws)"
  by (induction vs ws rule: list_induct2) (simp_all add: less_imp_le)

lemma np_average_nonneg:
  assumes "length vs = length ws" "\<forall>v\<in>set vs. 0 \<le> v" "\<forall>w\<in>set ws. 0 < w"
  shows "0 \<le> np_average vs ws"
proof -
  have "0 \<le> sum_list ws" using assms(3) by (intro sum_list_nonneg) (auto intro: less_imp_le)
  then show ?thesis
    unfolding np_average_def using weighted_sum_nonneg[OF assms] by simp
qed

text \<open>
  The weights of a non-empty reading list sum to a positive number: the average the
  fusion asks for is defined.
\<close>

lemma sum_weights_positive:
  "ws \<noteq> [] \<Longrightarrow> \<forall>w\<in>set ws. (0::real) < w \<Longrightarrow> 0 < sum_list ws"
  by (induction ws) (auto intro: add_pos_nonneg sum_list_nonneg less_imp_le)

lemma readings_invariant:
  assumes "list_all (\<lambda>meas. case meas_value meas of None \<Rightarrow> True | Some v \<Rightarrow> 0 \<le> v) ms"
      and "nonneg_cd entry" and "0 \<le> mm"
      and "r = sentinel_reading entry mm (openaq_readings p ms ([], []))"
  shows "length (fst r) = length (snd r) \<and> (\<forall>v\<in>set (fst r). 0 \<le> v) \<and>
         (\<forall>w\<in>set (snd r). 0 < w)"
proof -
  have a: "\<forall>v\<in>set (map (the \<circ> meas_value)
              (filter (\<lambda>meas. parameter meas = Some p \<and> meas_value meas \<noteq> None) ms)). 0 \<le> v"
    using assms(1) by (auto simp: list_all_iff split: option.splits)
  have b: "length (fst (sentinel_reading entry mm ([], []))) =
             length (snd (sentinel_reading entry mm ([], [])))
         \<and> (\<forall>v\<in>set (fst (sentinel_reading entry mm ([], []))). 0 \<le> v)
         \<and> (\<forall>w\<in>set (snd (sentinel_reading entry mm ([], []))). 0 < w)"
    using assms(2,3)
    by (auto simp: sentinel_reading_def nonneg_cd_def weights_lookup split: option.splits)
  have r: "r = (map (the \<circ> meas_value)
                  (filter (\<lambda>meas. parameter meas = Some p \<and> meas_value meas \<noteq> None) ms)
                   @ fst (sentinel_reading entry mm ([], [])),
                replicate
                  (length (filter (\<lambda>meas. parameter meas = Some p \<and> meas_value meas \<noteq> None) ms))
                  (1 / 2)
                   @ snd (sentinel_reading entry mm ([], [])))"
    unfolding assms(4) openaq_readings_acc[of p ms "[]" "[]"]
    by (subst sentinel_reading_acc) simp
  show ?thesis unfolding r using a b by auto
qed

lemma openaq_invariant:
  assumes "list_all (\<lambda>meas. case meas_value meas of None \<Rightarrow> True | Some v \<Rightarrow> 0 \<le> v) ms"
      and "r = openaq_readings p ms ([], [])"
  shows "length (fst r) = length (snd r) \<and> (\<forall>v\<in>set (fst r). 0 \<le> v) \<and>
         (\<forall>w\<in>set (snd r). 0 < w)"
  using assms by (auto simp: openaq_readings_acc list_all_iff split: option.splits)

lemma fuse_air_quality_nonneg:
  assumes "list_all (\<lambda>meas. case meas_value meas of None \<Rightarrow> True | Some v \<Rightarrow> 0 \<le> v)
             (get_measurements srcs)"
      and "nonneg_cd (no2 (get_sentinel srcs))" and "nonneg_cd (so2 (get_sentinel srcs))"
  shows "list_all (\<lambda>(pollutant, data). case m_value data of Num x \<Rightarrow> 0 \<le> x | _ \<Rightarrow> True)
           (fuse_air_quality srcs)"
proof -
  have p: "0 \<le> np_average (fst (openaq_readings ''pm25'' (get_measurements srcs) ([], [])))
                           (snd (openaq_readings ''pm25'' (get_measurements srcs) ([], [])))"
    using openaq_invariant[OF assms(1) refl, of "''pm25''"] by (intro np_average_nonneg) auto
  have n: "0 \<le> np_average
             (fst (sentinel_reading (no2 (get_sentinel srcs)) (4601 / 100)
                     (openaq_readings ''no2'' (get_measurements srcs) ([], []))))
             (snd (sentinel_reading (no2 (get_sentinel srcs)) (4601 / 100)
                     (openaq_readings ''no2'' (get_measurements srcs) ([], []))))"
    using readings_invariant[OF assms(1) assms(2) _ refl, of "4601 / 100" "''no2''"]
    by (intro np_average_nonneg) auto
  have s: "0 \<le> np_average
             (fst (sentinel_reading (so2 (get_sentinel srcs)) (6407 / 100)
                     (openaq_readings ''so2'' (get_measurements srcs) ([], []))))
             (snd (sentinel_reading (so2 (get_sentinel srcs)) (6407 / 100)
                     (openaq_readings ''so2'' (get_measurements srcs) ([], []))))"
    using readings_invariant[OF assms(1) assms(3) _ refl, of "6407 / 100" "''so2''"]
    by (intro np_average_nonneg) auto
  show ?thesis
    unfolding fuse_air_quality_def Let_def using p n s by simp
qed

lemma reading_weights_positive:
  assumes "r = sentinel_reading entry mm (openaq_readings p ms ([], []))" and "fst r \<noteq> []"
  shows "0 < sum_list (snd r)"
proof -
  have b: "length (fst (sentinel_reading entry mm ([], []))) =
             length (snd (sentinel_reading entry mm ([], [])))
         \<and> (\<forall>w\<in>set (snd (sentinel_reading entry mm ([], []))). 0 < w)"
    by (auto simp: sentinel_reading_def weights_lookup split: option.splits)
  have r: "r = (map (the \<circ> meas_value)
                  (filter (\<lambda>meas. parameter meas = Some p \<and> meas_value meas \<noteq> None) ms)
                   @ fst (sentinel_reading entry mm ([], [])),
                replicate
                  (length (filter (\<lambda>meas. parameter meas = Some p \<and> meas_value meas \<noteq> None) ms))
                  (1 / 2)
                   @ snd (sentinel_reading entry mm ([], [])))"
    unfolding assms(1) openaq_readings_acc[of p ms "[]" "[]"]
    by (subst sentinel_reading_acc) simp
  have "snd r \<noteq> []" using assms(2) b unfolding r by auto
  moreover have "\<forall>w\<in>set (snd r). 0 < w" using b unfolding r by auto
  ultimately show ?thesis by (rule sum_weights_positive)
qed

lemma get_sources_drop_missing:
  "get_measurements (get_sources (drop_missing raw)) =
     filter (\<lambda>meas. meas_value meas \<noteq> None) (get_measurements (get_sources raw))"
  "no2 (get_sentinel (get_sources (drop_missing raw))) =
     drop_cd (no2 (get_sentinel (get_sources raw)))"
  "so2 (get_sentinel (get_sources (drop_missing raw))) =
     drop_cd (so2 (get_sentinel (get_sources raw)))"
  by (simp_all add: drop_missing_def get_sources_def get_measurements_def get_sentinel_def)

lemma fused_values_fuse_air:
  "map (\<lambda>(pollutant, data). (pollutant, m_value data)) (fuse_air_quality srcs) =
   (let pm25 = openaq_readings ''pm25'' (get_measurements srcs) ([], []);
        no2r = sentinel_reading (no2 (get_sentinel srcs)) (4601 / 100)
                 (openaq_readings ''no2'' (get_measurements srcs) ([], []));
        so2r = sentinel_reading (so2 (get_sentinel srcs)) (6407 / 100)
                 (openaq_readings ''so2'' (get_measurements srcs) ([], []))
    in (if fst pm25 \<noteq> [] then [(''pm25'', Num (np_average (fst pm25) (snd pm25)))] else []) @
       (if fst no2r \<noteq> [] then [(''no2'', Num (np_average (fst no2r) (snd no2r)))] else []) @
       (if fst so2r \<noteq> [] then [(''so2'', Num (np_average (fst so2r) (snd so2r)))] else []))"
  unfolding fuse_air_quality_def Let_def by simp

text \<open>
  Two properties of the specification's section 8 on the fusion: a single ground-sensor
  PM2.5 reading of 50 is passed through under the ground sensor's name, and a single
  reading of 40 averages to 40.
\<close>

lemma fuse_single_pm25_reading:
  "fuse_air_quality (get_sources (openaq_only [reading ''pm25'' v])) =
     [(''pm25'', \<lparr>m_value = Num v, m_unit = ug_m3, m_threshold = Some 45,
                 m_source = ''OpenAQ''\<rparr>)]"
  by (simp add: fuse_air_quality_def get_sources_def openaq_only_def reading_def
      get_measurements_def get_sentinel_def sentinel_reading_def np_average_def weights_lookup
      Let_def)

text \<open>
  The label also names the ground sensors when only the satellite contributed to NO2 and
  the ground sensors reported some other pollutant.
\<close>

lemma satellite_only_no2_label:
  "no2_source_classes (get_sources (openaq_and_no2_column (reading ''pm25'' 30) (1 / 10000))) =
     [''Sentinel-5P''] \<and>
   map_option m_source
     (map_of (fuse_air_quality (get_sources (openaq_and_no2_column (reading ''pm25'' 30) (1 / 10000))))
        ''no2'') = Some ''OpenAQ''"
  by (simp add: fuse_air_quality_def get_sources_def openaq_and_no2_column_def reading_def
      get_measurements_def get_sentinel_def sentinel_reading_def weights_lookup
      Let_def source_label_def no2_source_classes_def)

section \<open>Claims\<close>

text \<open>
  C1. For every metrics bundle, historical trend and data-quality record, the RiskResult
  that \<open>calculate_risk_score\<close> returns has its \<open>risk_score\<close> in [0, 100] and its
  \<open>confidence\<close> in [0, 100] (the clamped values stay in range under the rounding to one
  decimal of the return statement); and a result is returned whenever there is no history
  or the history is numeric.
\<close>

theorem risk_result_ranges:
  "(calculate_risk_score m h dq = Inr r \<longrightarrow>
      0 \<le> risk_score r \<and> risk_score r \<le> 100 \<and> 0 \<le> confidence r \<and> confidence r \<le> 100) \<and>
   ((case h of None \<Rightarrow> True | Some hs \<Rightarrow> list_all numeric_values hs) \<longrightarrow>
      (\<exists>r'. calculate_risk_score m h dq = Inr r'))"
proof -
  have ranges: "0 \<le> risk_score r \<and> risk_score r \<le> 100 \<and> 0 \<le> confidence r \<and> confidence r \<le> 100"
    if "calculate_risk_score m h dq = Inr r"
    using that unfolding calculate_risk_score_def Let_def
    using py_round1_range[OF conjunct1[OF combined_risk_score_range]
                             conjunct2[OF combined_risk_score_range]]
          py_round1_range[OF conjunct1[OF calculate_confidence_range]
                             conjunct2[OF calculate_confidence_range]]
    by (auto split: sum.splits)
  have returns: "\<exists>r'. calculate_risk_score m h dq = Inr r'"
    if "case h of None \<Rightarrow> True | Some hs \<Rightarrow> list_all numeric_values hs"
    using that by (intro calculate_risk_score_returns) (auto split: option.splits)
  show ?thesis using ranges returns by blast
qed

theorem risk_result_ranges_witness:
  "calculate_risk_score (pm25_only 90) None None =
     Inr \<lparr>risk_score = 75, exposure_score = 100, duration_score = 50, uncertainty_penalty = 0,
          verdict = UNSAFE, confidence = 70, model_version = ''1.0.0''\<rparr> \<and>
   (0::real) \<le> 75 \<and> (75::real) \<le> 100 \<and> (0::real) \<le> 70 \<and> (70::real) \<le> 100"
proof -
  have run: "calculate_risk_score (pm25_only 90) None None =
     Inr \<lparr>risk_score = 75, exposure_score = 100, duration_score = 50, uncertainty_penalty = 0,
          verdict = UNSAFE, confidence = 70, model_version = ''1.0.0''\<rparr>"
    by (simp add: calculate_risk_score_def pm25_only_exposure pm25_only_confidence
        default_penalty calculate_duration_score_def combined_risk_score_def py_round1_def Let_def)
  show ?thesis using risk_result_ranges[of "pm25_only 90" None None] run by simp
qed

text \<open>
  C2, as stated: the verdict is a step function of the returned \<open>risk_score\<close>. It is
  not: the verdict is taken from the score before the rounding. A PM2.5 value of 77.94
  with no history gives the composite score 66.96, which is returned as 67.0 with the
  verdict MODERATE, where the thresholds give UNSAFE for 67.0.
\<close>

theorem verdict_of_returned_score_counterexample:
  "calculate_risk_score (pm25_only (7794 / 100)) None None =
     Inr \<lparr>risk_score = 67, exposure_score = 866 / 10, duration_score = 50,
          uncertainty_penalty = 0, verdict = MODERATE, confidence = 70,
          model_version = ''1.0.0''\<rparr> \<and>
   spec_verdict 67 = UNSAFE"
  by (simp add: calculate_risk_score_def pm25_only_exposure pm25_only_confidence
      default_penalty calculate_duration_score_def combined_risk_score_def py_round1_def Let_def
      spec_verdict_def)

text \<open>
  C2, amended: the verdict is a step function of the clamped composite score \<open>s\<close>
  before it is rounded: UNSAFE iff \<open>s \<ge> 67\<close>, MODERATE iff \<open>34 \<le> s < 67\<close>, SAFE iff
  \<open>s < 34\<close>; 66.9 gives MODERATE, 67.0 UNSAFE, 33.9 SAFE and 34.0 MODERATE. The returned
  \<open>risk_score\<close> is \<open>s\<close> rounded to one decimal.
\<close>

theorem verdict_of_unrounded_score:
  "calculate_risk_score m h dq = Inr r \<Longrightarrow> calculate_duration_score h = Inr d \<Longrightarrow>
   s = combined_risk_score (calculate_exposure_score m) d
         (calculate_uncertainty_penalty
            (case dq of None \<Rightarrow> default_data_quality | Some q \<Rightarrow> q)) \<Longrightarrow>
   risk_score r = py_round1 s \<and> verdict r = spec_verdict s \<and>
   (verdict r = UNSAFE \<longleftrightarrow> 67 \<le> s) \<and>
   (verdict r = MODERATE \<longleftrightarrow> 34 \<le> s \<and> s < 67) \<and>
   (verdict r = SAFE \<longleftrightarrow> s < 34) \<and>
   (s = 669 / 10 \<longrightarrow> verdict r = MODERATE) \<and> (s = 67 \<longrightarrow> verdict r = UNSAFE) \<and>
   (s = 339 / 10 \<longrightarrow> verdict r = SAFE) \<and> (s = 34 \<longrightarrow> verdict r = MODERATE)"
  unfolding calculate_risk_score_def Let_def spec_verdict_def
  by (auto split: sum.splits)

theorem verdict_of_unrounded_score_witness:
  "calculate_risk_score (pm25_only 45) None None =
     Inr \<lparr>risk_score = 45, exposure_score = 50, duration_score = 50, uncertainty_penalty = 0,
          verdict = MODERATE, confidence = 70, model_version = ''1.0.0''\<rparr> \<and>
   calculate_duration_score None = Inr 50 \<and>
   combined_risk_score (calculate_exposure_score (pm25_only 45)) 50
      (calculate_uncertainty_penalty default_data_quality) = 45 \<and>
   spec_verdict 45 = MODERATE"
proof -
  have run: "calculate_risk_score (pm25_only 45) None None =
     Inr \<lparr>risk_score = 45, exposure_score = 50, duration_score = 50, uncertainty_penalty = 0,
          verdict = MODERATE, confidence = 70, model_version = ''1.0.0''\<rparr>"
    by (simp add: calculate_risk_score_def pm25_only_exposure pm25_only_confidence
        default_penalty calculate_duration_score_def combined_risk_score_def py_round1_def Let_def)
  have dur: "calculate_duration_score None = Inr 50"
    by (simp add: calculate_duration_score_def)
  have s: "45 = combined_risk_score (calculate_exposure_score (pm25_only 45)) 50
      (calculate_uncertainty_penalty
         (case None of None \<Rightarrow> default_data_quality | Some q \<Rightarrow> q))"
    by (simp add: pm25_only_exposure default_penalty combined_risk_score_def)
  show ?thesis using verdict_of_unrounded_score[OF run dur s] run dur s by simp
qed

text \<open>
  C3, as stated: every fused value is non-negative, a negative reading contributing
  nothing. The fusion has no test of the sign: a single ground-sensor PM2.5 reading of
  -5 is fused to -5.
\<close>

theorem fused_value_negative_counterexample:
  "fuse_air_quality (get_sources (openaq_only [reading ''pm25'' (- 5)])) =
     [(''pm25'', \<lparr>m_value = Num (- 5), m_unit = ug_m3, m_threshold = Some 45,
                 m_source = ''OpenAQ''\<rparr>)] \<and>
   \<not> nonneg_values (fuse_data (openaq_only [reading ''pm25'' (- 5)]) 0 0)"
  by (simp add: fuse_data_def nonneg_values_def get_air_def fuse_air_quality_def get_sources_def
      openaq_only_def reading_def get_measurements_def get_sentinel_def sentinel_reading_def
      np_average_def weights_lookup Let_def)

text \<open>
  C3, amended: when every reading that is present is non-negative, every value of the
  fused bundle is non-negative; and a missing reading contributes nothing: the fused
  values are those of the raw data without its missing readings.
\<close>

theorem fused_values_nonneg:
  "(nonneg_readings raw \<longrightarrow> nonneg_values (fuse_data raw lat lng)) \<and>
   fused_values (fuse_data (drop_missing raw) lat lng) = fused_values (fuse_data raw lat lng)"
proof -
  have a: "nonneg_values (fuse_data raw lat lng)" if "nonneg_readings raw"
    using that fuse_air_quality_nonneg[of "get_sources raw"]
    by (simp add: nonneg_readings_def nonneg_values_def fuse_data_def get_air_def Let_def
        get_quality_score_def fuse_water_quality_def fuse_land_metrics_def)
  have "map (\<lambda>(pollutant, data). (pollutant, m_value data))
          (fuse_air_quality (get_sources (drop_missing raw))) =
        map (\<lambda>(pollutant, data). (pollutant, m_value data))
          (fuse_air_quality (get_sources raw))"
    unfolding fused_values_fuse_air get_sources_drop_missing sentinel_reading_drop_cd
        openaq_readings_drop_missing by (rule refl)
  then have b: "fused_values (fuse_data (drop_missing raw) lat lng) =
                fused_values (fuse_data raw lat lng)"
    by (simp add: fused_values_def fuse_data_def Let_def get_air_def)
  show ?thesis using a b by blast
qed

theorem fused_values_nonneg_witness:
  "nonneg_readings
     (openaq_only [reading ''pm25'' 40, \<lparr>parameter = Some ''pm25'', meas_value = None\<rparr>]) \<and>
   nonneg_values
     (fuse_data
        (openaq_only [reading ''pm25'' 40, \<lparr>parameter = Some ''pm25'', meas_value = None\<rparr>])
        0 0) \<and>
   fused_values
     (fuse_data
        (openaq_only [reading ''pm25'' 40, \<lparr>parameter = Some ''pm25'', meas_value = None\<rparr>])
        0 0) = [(''pm25'', Num 40)]"
proof -
  have nn: "nonneg_readings
     (openaq_only [reading ''pm25'' 40, \<lparr>parameter = Some ''pm25'', meas_value = None\<rparr>])"
    by (simp add: nonneg_readings_def openaq_only_def reading_def get_sources_def
        get_measurements_def get_sentinel_def nonneg_cd_def)
  have dm: "drop_missing
     (openaq_only [reading ''pm25'' 40, \<lparr>parameter = Some ''pm25'', meas_value = None\<rparr>]) =
     \<lparr>sources = Some \<lparr>openaq = Some \<lparr>measurements = Some [reading ''pm25'' 40]\<rparr>,
                      sentinel5p = Some \<lparr>no2 = None, so2 = None\<rparr>\<rparr>\<rparr>"
    by (simp add: drop_missing_def openaq_only_def reading_def get_sources_def
        get_measurements_def get_sentinel_def drop_cd_def)
  have fv: "fused_values (fuse_data
       \<lparr>sources = Some \<lparr>openaq = Some \<lparr>measurements = Some [reading ''pm25'' 40]\<rparr>,
                        sentinel5p = Some \<lparr>no2 = None, so2 = None\<rparr>\<rparr>\<rparr> 0 0) =
       [(''pm25'', Num 40)]"
    by (simp add: fused_values_def fuse_data_def get_air_def fuse_air_quality_def get_sources_def
        reading_def get_measurements_def get_sentinel_def sentinel_reading_def
        np_average_def weights_lookup Let_def)
  show ?thesis
    using fused_values_nonneg[of "openaq_only [reading ''pm25'' 40,
            \<lparr>parameter = Some ''pm25'', meas_value = None\<rparr>]" 0 0] nn
    unfolding dm fv by simp
qed

text \<open>
  C4, as stated: every pollutant of the air domain contributes its exceedance ratio. The
  code reads PM2.5, NO2 and SO2 only: PM10 at 90 with the threshold 45 and nothing else
  present scores 0, where the stated formula gives 100.
\<close>

theorem exposure_all_pollutants_counterexample:
  "calculate_exposure_score (pm10_only 90) = 0 \<and> spec_exposure_score (pm10_only 90) = 100"
  by (simp add: calculate_exposure_score_def spec_exposure_score_def spec_ratios_def pm10_only_def
      metric_of_def get_air_def get_quality_score_def exceedance_step_def Let_def)

text \<open>
  C4, amended: the exposure score is min(100, 50 times the maximum of 0 and the ratios of
  the present metrics), where of the air domain only PM2.5, NO2 and SO2 contribute, each
  its value over its WHO 24h threshold (45, 200, 40) when its value is not \<open>None\<close>, the
  water quality score contributes \<open>(100 - score) / 100\<close>, and absent metrics do not
  take part; PM2.5 at 90 with nothing else present scores 100.
\<close>

theorem exposure_score_formula:
  "calculate_exposure_score m = min 100 (50 * Max (set (0 # present_ratios m))) \<and>
   calculate_exposure_score (pm25_only 90) = 100"
proof -
  have "calculate_exposure_score m = min 100 (fold max (present_ratios m) 0 * 50)"
    unfolding calculate_exposure_score_unfold present_ratios_def
    by (simp add: exceedance_step_who[OF WHO_lookup(1)] exceedance_step_who[OF WHO_lookup(2)]
        exceedance_step_who[OF WHO_lookup(3)] max.commute split: option.splits)
  then have "calculate_exposure_score m = min 100 (50 * Max (set (0 # present_ratios m)))"
    using Max.set_eq_fold[of 0 "present_ratios m"] by (simp add: mult.commute)
  moreover have "calculate_exposure_score (pm25_only 90) = 100"
    by (simp add: pm25_only_exposure)
  ultimately show ?thesis by simp
qed

text \<open>
  C5. A historical trend with fewer than 7 entries (or none) gives the duration score
  50.0. For a trend with at least 7 entries, the score that is returned is 100 times the
  number of high-exposure days among the most recent min(30, length) entries (the trend
  without its first \<open>length - 30\<close> entries), divided by min(30, length), and it is
  returned whenever the examined entries are numeric, as FusedMetric values are; 7 entries
  that are all high-exposure days give 100.0.
\<close>

theorem duration_score_spec:
  "calculate_duration_score None = Inr 50 \<and>
   (length h < 7 \<longrightarrow> calculate_duration_score (Some h) = Inr 50) \<and>
   (7 \<le> length h \<and> calculate_duration_score (Some h) = Inr s \<longrightarrow>
      s = 100 * real (length (filter exceeds_who_24h (drop (length h - 30) h)))
            / real (min 30 (length h))) \<and>
   (7 \<le> length h \<and> list_all numeric_values (drop (length h - 30) h) \<longrightarrow>
      calculate_duration_score (Some h) =
        Inr (100 * real (length (filter exceeds_who_24h (drop (length h - 30) h)))
               / real (min 30 (length h)))) \<and>
   (length h = 7 \<and> list_all numeric_values h \<and> list_all exceeds_who_24h h \<longrightarrow>
      calculate_duration_score (Some h) = Inr 100)"
proof -
  have a: "calculate_duration_score None = Inr 50"
    by (simp add: calculate_duration_score_def)
  have b: "length h < 7 \<longrightarrow> calculate_duration_score (Some h) = Inr 50"
    by (simp add: calculate_duration_score_def)
  have c: "calculate_duration_score (Some h) =
        Inr (100 * real (length (filter exceeds_who_24h (drop (length h - 30) h)))
               / real (min 30 (length h)))"
    if "7 \<le> length h" "list_all numeric_values (drop (length h - 30) h)"
  proof -
    have ne: "h \<noteq> []" "\<not> length h < 7" using that(1) by auto
    have num: "list_all numeric_values (last_days (min 30 (length h)) h)"
      using that(2) by (simp only: last_days_window)
    show ?thesis
      unfolding calculate_duration_score_def Let_def
      using ne count_high_exposure_days_numeric[OF num, of 0]
      by (simp add: last_days_window)
  qed
  have d: "calculate_duration_score (Some h) = Inr 100"
    if "length h = 7" "list_all numeric_values h" "list_all exceeds_who_24h h"
  proof -
    have ld: "drop (length h - 30) h = h" using that(1) by simp
    have fl: "filter exceeds_who_24h h = h" using that(3) by (simp add: list_all_iff)
    show ?thesis using c[unfolded ld fl] that by simp
  qed
  have e: "s = 100 * real (length (filter exceeds_who_24h (drop (length h - 30) h)))
            / real (min 30 (length h))"
    if "7 \<le> length h" "calculate_duration_score (Some h) = Inr s"
  proof -
    have ne: "h \<noteq> []" "\<not> length h < 7" using that(1) by auto
    from that(2) ne obtain k where
      k: "count_high_exposure_days (last_days (min 30 (length h)) h) 0 = Inr k" and
      s: "s = real k / real (min 30 (length h)) * 100"
      unfolding calculate_duration_score_def Let_def by (auto split: sum.splits)
    show ?thesis using count_high_exposure_days_result[OF k] s
      by (simp add: last_days_window)
  qed
  show ?thesis using a b c d e by blast
qed

theorem duration_score_spec_witness:
  "calculate_duration_score (Some (replicate 6 (pm25_only 50))) = Inr 50 \<and>
   calculate_duration_score (Some (replicate 7 (pm25_only 50))) = Inr 100 \<and>
   calculate_duration_score (Some (replicate 4 (pm25_only 10) @ replicate 4 (pm25_only 50))) =
     Inr 50 \<and>
   calculate_duration_score (Some (pm25_only 50 # replicate 30 (pm25_only 10))) = Inr 0 \<and>
   calculate_duration_score
     (Some (replicate 5 (pm25_only 50) @ replicate 24 (pm25_only 10) @
            replicate 6 (pm25_only 50))) = Inr 20"
  using duration_score_spec[of "replicate 6 (pm25_only 50)" 50]
        duration_score_spec[of "replicate 7 (pm25_only 50)" 100]
        duration_score_spec[of "replicate 4 (pm25_only 10) @ replicate 4 (pm25_only 50)" 50]
        duration_score_spec[of "pm25_only 50 # replicate 30 (pm25_only 10)" 0]
        duration_score_spec[of "replicate 5 (pm25_only 50) @ replicate 24 (pm25_only 10) @
            replicate 6 (pm25_only 50)" 20]
  by (simp add: list_all_iff pm25_only_numeric pm25_only_exceeds)

text \<open>
  C6, as stated: at an age of 72 hours and full coverage the confidence is 40. The
  subtraction for the age is capped at 30, so the confidence is 70.
\<close>

theorem confidence_at_72h_counterexample:
  "calculate_confidence \<lparr>coverage = Some 1, age_hours = Some 72\<rparr> three_metrics = 70 \<and>
   calculate_confidence \<lparr>coverage = Some 1, age_hours = Some 72\<rparr> three_metrics \<noteq> 40"
  by (simp add: calculate_confidence_def get_age_hours_def get_coverage_def three_metrics_def
      get_air_def Let_def)

text \<open>
  C6, amended: at an age of 72 hours and coverage 1.0 the uncertainty penalty is
  min(20, (72 - 24) / 24 * 20) = 20, and the confidence, with at least two air-domain
  metrics present, starts at 100, loses min(30, (72 - 24) / 24 * 30) = 30, is multiplied by
  the coverage 1.0 and is 70.
\<close>

theorem penalty_and_confidence_at_72h:
  "calculate_uncertainty_penalty \<lparr>coverage = Some 1, age_hours = Some 72\<rparr> =
     min 20 ((72 - 24) / 24 * 20) \<and>
   calculate_uncertainty_penalty \<lparr>coverage = Some 1, age_hours = Some 72\<rparr> = 20 \<and>
   (2 \<le> length (get_air m) \<longrightarrow>
      calculate_confidence \<lparr>coverage = Some 1, age_hours = Some 72\<rparr> m =
        (100 - min 30 ((72 - 24) / 24 * 30)) * 1 \<and>
      calculate_confidence \<lparr>coverage = Some 1, age_hours = Some 72\<rparr> m = 70)"
  by (auto simp add: calculate_uncertainty_penalty_def calculate_confidence_def get_age_hours_def
      get_coverage_def Let_def)

theorem penalty_and_confidence_at_72h_witness:
  "2 \<le> length (get_air two_metrics) \<and>
   calculate_uncertainty_penalty \<lparr>coverage = Some 1, age_hours = Some 72\<rparr> = 20 \<and>
   calculate_confidence \<lparr>coverage = Some 1, age_hours = Some 72\<rparr> two_metrics = 70"
proof -
  have two: "2 \<le> length (get_air two_metrics)"
    by (simp add: two_metrics_def get_air_def)
  show ?thesis using penalty_and_confidence_at_72h[of two_metrics] two by simp
qed

text \<open>
  C7. The provenance label should be the fused one exactly when two source classes
  contributed. The code tests the number of readings instead: two ground-sensor NO2
  readings and no satellite value, one contributing class, are labelled as a fusion of
  the ground sensors and the satellite.
\<close>

theorem fused_label_of_two_ground_readings:
  "no2_source_classes (get_sources (openaq_only [reading ''no2'' 10, reading ''no2'' 20])) =
     [''OpenAQ''] \<and>
   fuse_air_quality (get_sources (openaq_only [reading ''no2'' 10, reading ''no2'' 20])) =
     [(''no2'', \<lparr>m_value = Num 15, m_unit = ug_m3, m_threshold = Some 200,
                m_source = ''Fused (OpenAQ + Sentinel-5P)''\<rparr>)]"
  by (simp add: fuse_air_quality_def get_sources_def openaq_only_def reading_def
      get_measurements_def get_sentinel_def sentinel_reading_def np_average_def weights_lookup
      Let_def source_label_def no2_source_classes_def)

text \<open>
  C8. \<open>fit\<close> on fewer than 10 samples returns a detector that is not fitted, without
  raising; every \<open>predict\<close> on it returns the neutral result (score 0, not an anomaly,
  confidence 0) with the note of a model that is not fitted, and no result of a fitted
  detector carries that note.
\<close>

theorem fit_guard_untrained:
  "length historical_data < 10 \<Longrightarrow>
   fit train self historical_data = Inr (self\<lparr>fitted := False\<rparr>) \<and>
   (\<forall>current_data.
      predict columns score_samples model_predict (self\<lparr>fitted := False\<rparr>) current_data =
        Inr not_fitted_result) \<and>
   anomaly_score not_fitted_result = 0 \<and> \<not> is_anomaly not_fitted_result \<and>
   anomaly_confidence not_fitted_result = 0 \<and>
   result_note not_fitted_result = Some ''Model not fitted - insufficient historical data'' \<and>
   (\<forall>d x r. fitted d \<and> predict columns score_samples model_predict d x = Inr r \<longrightarrow>
      result_note r \<noteq> result_note not_fitted_result)"
  by (auto simp: fit_def predict_def not_fitted_result_def split: if_splits option.splits)

theorem fit_guard_untrained_witness:
  "length (replicate 9 [(''pm25'', 12 :: real)]) < 10 \<and>
   fit sample_train (init_detector 0) (replicate 9 [(''pm25'', 12)]) =
     Inr \<lparr>model = 0, fitted = False\<rparr> \<and>
   predict sample_columns sample_score sample_label \<lparr>model = 0, fitted = False\<rparr>
     [(''pm25'', 500)] = Inr not_fitted_result \<and>
   predict sample_columns sample_score sample_label \<lparr>model = 9, fitted = True\<rparr>
     [(''pm25'', 500)] =
     Inr \<lparr>anomaly_score = - (3 / 5), is_anomaly = True, anomaly_confidence = 3 / 5,
          result_note = None, score_threshold = Some (- (1 / 2))\<rparr>"
proof -
  have len: "length (replicate 9 [(''pm25'', 12 :: real)]) < 10" by simp
  have gen: "predict sample_columns sample_score sample_label \<lparr>model = 9, fitted = True\<rparr>
       [(''pm25'', 500)] =
     Inr \<lparr>anomaly_score = - (3 / 5), is_anomaly = True, anomaly_confidence = 3 / 5,
          result_note = None, score_threshold = Some (- (1 / 2))\<rparr>"
    by (simp add: predict_def sample_columns_def sample_score_def sample_label_def
        extract_feature_names_def)
  show ?thesis
    using fit_guard_untrained[OF len, of sample_train "init_detector 0" sample_columns
            sample_score sample_label] gen
    by (simp add: init_detector_def)
qed

text \<open>
  C9. Whatever the raw data, \<open>fuse_data\<close> returns the water quality score 75.0 and the
  deforestation risk 25.0, so the exposure score of a fused bundle is at least
  (100 - 75) / 100 * 50 = 12.5.
\<close>

theorem fuse_data_placeholders:
  "get_quality_score (fuse_data raw lat lng) = Some 75 \<and>
   map_option deforestation_risk (land (fuse_data raw lat lng)) = Some 25 \<and>
   (100 - 75) / 100 * 50 \<le> calculate_exposure_score (fuse_data raw lat lng) \<and>
   25 / 2 \<le> calculate_exposure_score (fuse_data raw lat lng)"
proof -
  have q: "get_quality_score (fuse_data raw lat lng) = Some 75"
    by (simp add: fuse_data_def get_quality_score_def fuse_water_quality_def Let_def)
  have l: "map_option deforestation_risk (land (fuse_data raw lat lng)) = Some 25"
    by (simp add: fuse_data_def fuse_land_metrics_def Let_def)
  have e: "25 / 2 \<le> calculate_exposure_score (fuse_data raw lat lng)"
    unfolding calculate_exposure_score_unfold q by (simp add: max_def)
  show ?thesis using q l e by simp
qed

text \<open>
  C10. Two bundles that agree on the air entries \<open>pm25\<close>, \<open>no2\<close> and \<open>so2\<close> and on
  the water quality score have the same exposure score, whatever their other air
  pollutants are.
\<close>

theorem exposure_depends_on_four_entries:
  "map_of (get_air m1) ''pm25'' = map_of (get_air m2) ''pm25'' \<Longrightarrow>
   map_of (get_air m1) ''no2'' = map_of (get_air m2) ''no2'' \<Longrightarrow>
   map_of (get_air m1) ''so2'' = map_of (get_air m2) ''so2'' \<Longrightarrow>
   get_quality_score m1 = get_quality_score m2 \<Longrightarrow>
   calculate_exposure_score m1 = calculate_exposure_score m2"
  unfolding calculate_exposure_score_unfold
  by (simp add: exceedance_step_cong[of "get_air m1" _ "get_air m2"])

theorem exposure_depends_on_four_entries_witness:
  "map_of (get_air clean_other_pollutants) ''pm25'' =
     map_of (get_air dirty_other_pollutants) ''pm25'' \<and>
   map_of (get_air clean_other_pollutants) ''no2'' =
     map_of (get_air dirty_other_pollutants) ''no2'' \<and>
   map_of (get_air clean_other_pollutants) ''so2'' =
     map_of (get_air dirty_other_pollutants) ''so2'' \<and>
   get_quality_score clean_other_pollutants = get_quality_score dirty_other_pollutants \<and>
   map_of (get_air clean_other_pollutants) ''pm10'' \<noteq>
     map_of (get_air dirty_other_pollutants) ''pm10'' \<and>
   calculate_exposure_score clean_other_pollutants =
     calculate_exposure_score dirty_other_pollutants"
proof -
  have a: "map_of (get_air clean_other_pollutants) ''pm25'' =
             map_of (get_air dirty_other_pollutants) ''pm25''"
    and b: "map_of (get_air clean_other_pollutants) ''no2'' =
             map_of (get_air dirty_other_pollutants) ''no2''"
    and c: "map_of (get_air clean_other_pollutants) ''so2'' =
             map_of (get_air dirty_other_pollutants) ''so2''"
    and d: "get_quality_score clean_other_pollutants = get_quality_score dirty_other_pollutants"
    and e: "map_of (get_air clean_other_pollutants) ''pm10'' \<noteq>
             map_of (get_air dirty_other_pollutants) ''pm10''"
    by (simp_all add: clean_other_pollutants_def dirty_other_pollutants_def get_air_def
        get_quality_score_def metric_of_def)
  show ?thesis using exposure_depends_on_four_entries[OF a b c d] a b c d e by simp
qed

end
